theory Spec2Isabelle
  imports Main "HOL-Library.Word"
begin

unbundle bit_operations_syntax

section \<open>Go values used by provider/gpkg/gpkgFormat.go\<close>

text \<open>
  Fixed-width integers are machine words. A \<open>float64\<close> is kept as its IEEE-754 bit
  pattern: the decoder only moves the 64 bits (\<open>math.Float64frombits\<close>), it never
  computes with them.
\<close>

type_synonym byte = "8 word"
type_synonym uint16 = "16 word"
type_synonym uint32 = "32 word"
type_synonym int32 = "32 word"
type_synonym uint64 = "64 word"
type_synonym float64 = "64 word"

text \<open>
  A Go slice is a window on a backing array: \<open>elems\<close> are the \<open>len\<close> elements the slice
  shows, \<open>spare\<close> the elements of the backing array after them, up to the capacity.
  Indexing is checked against the length; a slice expression \<open>s[i:j]\<close> is checked against
  the capacity, so it can show elements of \<open>spare\<close>; \<open>s[i:]\<close> stops at the length.
  An index or bound out of range is a run-time panic.
\<close>

datatype 'a slice = Slice (elems: "'a list") (spare: "'a list")

text \<open>
  \<open>log.Fatal\<close> writes the message and exits the process; the message is kept with the
  values it prints. The other log calls write a record and return.
\<close>

datatype fatal =
    Need4Bytes nat
  | InvalidByteOrder byte
  | Need8Bytes nat
  | PointNeed16Bytes nat
  | RingNeed4Bytes nat
  | ExpectedPolygon uint32 uint32
  | NilGeometry uint32

datatype failure = Fatal fatal | Panic

datatype event =
    Info_Reading nat
  | Warn_ConsumedMismatch nat nat
  | Error_Unimplemented uint32
  | Error_Expecting4 nat
  | Error_SrsInvalid int32 byte
  | Error_TryingAgain byte
  | Error_StillInvalid int32
  | Error_LooksValid int32
  | Error_InvalidEnvelope byte
  | Debug_HeaderSize int nat
  | Error_NotInitialized string
  | Error_FlagsNotReady

definition len :: "'a slice \<Rightarrow> nat" where
  "len s = length (elems s)"

definition cap :: "'a slice \<Rightarrow> nat" where
  "cap s = length (elems s) + length (spare s)"

definition at :: "'a slice \<Rightarrow> nat \<Rightarrow> failure + 'a" where
  "at s i = (if i < len s then Inr (elems s ! i) else Inl Panic)"

definition slice_range :: "'a slice \<Rightarrow> nat \<Rightarrow> nat \<Rightarrow> failure + 'a slice" where
  "slice_range s i j =
     (if i \<le> j \<and> j \<le> cap s
      then Inr (Slice (take (j - i) (drop i (elems s @ spare s))) (drop j (elems s @ spare s)))
      else Inl Panic)"

definition slice_from :: "'a slice \<Rightarrow> nat \<Rightarrow> failure + 'a slice" where
  "slice_from s i = (if i \<le> len s then Inr (Slice (drop i (elems s)) (spare s)) else Inl Panic)"

definition and_then :: "failure + 'a \<Rightarrow> ('a \<Rightarrow> failure + 'b) \<Rightarrow> failure + 'b" where
  "and_then m f = (case m of Inl e \<Rightarrow> Inl e | Inr v \<Rightarrow> f v)"

section \<open>Scalar byte-order codec\<close>

definition wkbXDR :: byte where
  "wkbXDR = 0"

definition wkbNDR :: byte where
  "wkbNDR = 1"

text \<open>
  \<open>encoding/binary\<close> of the Go standard library: \<open>BigEndian.Uint32\<close>,
  \<open>LittleEndian.Uint32\<close> and the two \<open>Uint64\<close> read the first 4 or 8 bytes of their
  argument and panic on a shorter one.
\<close>

definition BigEndian_Uint32 :: "byte slice \<Rightarrow> failure + uint32" where
  "BigEndian_Uint32 b =
     (if len b < 4 then Inl Panic
      else Inr (ucast (elems b ! 3) OR push_bit 8 (ucast (elems b ! 2))
                OR push_bit 16 (ucast (elems b ! 1)) OR push_bit 24 (ucast (elems b ! 0))))"

definition LittleEndian_Uint32 :: "byte slice \<Rightarrow> failure + uint32" where
  "LittleEndian_Uint32 b =
     (if len b < 4 then Inl Panic
      else Inr (ucast (elems b ! 0) OR push_bit 8 (ucast (elems b ! 1))
                OR push_bit 16 (ucast (elems b ! 2)) OR push_bit 24 (ucast (elems b ! 3))))"

definition BigEndian_Uint64 :: "byte slice \<Rightarrow> failure + uint64" where
  "BigEndian_Uint64 b =
     (if len b < 8 then Inl Panic
      else Inr (ucast (elems b ! 7) OR push_bit 8 (ucast (elems b ! 6))
                OR push_bit 16 (ucast (elems b ! 5)) OR push_bit 24 (ucast (elems b ! 4))
                OR push_bit 32 (ucast (elems b ! 3)) OR push_bit 40 (ucast (elems b ! 2))
                OR push_bit 48 (ucast (elems b ! 1)) OR push_bit 56 (ucast (elems b ! 0))))"

definition LittleEndian_Uint64 :: "byte slice \<Rightarrow> failure + uint64" where
  "LittleEndian_Uint64 b =
     (if len b < 8 then Inl Panic
      else Inr (ucast (elems b ! 0) OR push_bit 8 (ucast (elems b ! 1))
                OR push_bit 16 (ucast (elems b ! 2)) OR push_bit 24 (ucast (elems b ! 3))
                OR push_bit 32 (ucast (elems b ! 4)) OR push_bit 40 (ucast (elems b ! 5))
                OR push_bit 48 (ucast (elems b ! 6)) OR push_bit 56 (ucast (elems b ! 7))))"

definition Float64frombits :: "uint64 \<Rightarrow> float64" where
  "Float64frombits bits = bits"

definition bytesToUint32 :: "byte slice \<Rightarrow> byte \<Rightarrow> failure + uint32" where
  "bytesToUint32 bytes order =
     (if len bytes \<noteq> 4 then Inl (Fatal (Need4Bytes (len bytes)))
      else if order = wkbXDR then BigEndian_Uint32 bytes
      else if order = wkbNDR then LittleEndian_Uint32 bytes
      else Inl (Fatal (InvalidByteOrder order)))"

definition bytesToFloat64 :: "byte slice \<Rightarrow> byte \<Rightarrow> failure + float64" where
  "bytesToFloat64 bytes order =
     (if len bytes \<noteq> 8 then Inl (Fatal (Need8Bytes (len bytes)))
      else if order = wkbXDR then and_then (BigEndian_Uint64 bytes) (\<lambda>bits. Inr (Float64frombits bits))
      else if order = wkbNDR then and_then (LittleEndian_Uint64 bytes) (\<lambda>bits. Inr (Float64frombits bits))
      else Inl (Fatal (InvalidByteOrder order)))"

section \<open>Geometry decoder\<close>

text \<open>
  Every \<open>Init\<close> method writes the fields of its receiver and returns the number of bytes
  consumed: the model takes the receiver and returns it updated, with the count. The
  fields \<open>x\<close> and \<open>y\<close> of \<open>WKBPoint\<close> are \<open>px\<close> and \<open>py\<close> here.
\<close>

record WKBPoint =
  px :: float64
  py :: float64

definition WKBPoint_Init :: "WKBPoint \<Rightarrow> byte slice \<Rightarrow> byte \<Rightarrow> failure + (WKBPoint \<times> nat)" where
  "WKBPoint_Init p bytes order =
     (if len bytes \<noteq> 16 then Inl (Fatal (PointNeed16Bytes (len bytes)))
      else and_then (slice_range bytes 0 8) (\<lambda>w1.
           and_then (bytesToFloat64 w1 order) (\<lambda>v1.
           and_then (slice_range bytes 8 16) (\<lambda>w2.
           and_then (bytesToFloat64 w2 order) (\<lambda>v2.
           Inr (p\<lparr>px := v1, py := v2\<rparr>, 16))))))"

record WKBLinearRing =
  numPoints :: uint32
  points :: "WKBPoint list"

text \<open>
  The elements \<open>make\<close> allocates are zero values. The allocation itself is taken to
  succeed: running out of memory on a large count is outside the model.
\<close>

definition zero_WKBPoint :: WKBPoint where
  "zero_WKBPoint = \<lparr>px = 0, py = 0\<rparr>"

definition zero_WKBLinearRing :: WKBLinearRing where
  "zero_WKBLinearRing = \<lparr>numPoints = 0, points = []\<rparr>"

text \<open>
  The loop of \<open>WKBLinearRing.Init\<close>, by the number of points still to read: each point is
  initialised from \<open>bytes[i:i+16]\<close> and the position moves on by 16. The result is the
  points read and the final position.
\<close>

fun ring_points :: "nat \<Rightarrow> byte slice \<Rightarrow> byte \<Rightarrow> nat \<Rightarrow> failure + (WKBPoint list \<times> nat)" where
  "ring_points 0 bytes order i = Inr ([], i)"
| "ring_points (Suc n) bytes order i =
     and_then (slice_range bytes i (i + 16)) (\<lambda>w.
     and_then (WKBPoint_Init zero_WKBPoint w order) (\<lambda>(pt, consumed).
     and_then (ring_points n bytes order (i + 16)) (\<lambda>(pts, i').
     Inr (pt # pts, i'))))"

definition WKBLinearRing_Init ::
  "WKBLinearRing \<Rightarrow> byte slice \<Rightarrow> byte \<Rightarrow> failure + (WKBLinearRing \<times> nat)" where
  "WKBLinearRing_Init lr bytes order =
     (if len bytes < 4 then Inl (Fatal (RingNeed4Bytes (len bytes)))
      else and_then (slice_range bytes 0 4) (\<lambda>w.
           and_then (bytesToUint32 w order) (\<lambda>n.
           and_then (ring_points (unat n) bytes order 4) (\<lambda>(pts, i).
           Inr (lr\<lparr>numPoints := n, points := pts\<rparr>, i)))))"

text \<open>
  \<open>WKBPolygon.Init\<close> never assigns the field \<open>numRings\<close>: the ring count is a local
  variable, and the field keeps the receiver's value.
\<close>

record WKBPolygon =
  byteOrder :: byte
  wkbType :: uint32
  numRings :: uint32
  rings :: "WKBLinearRing list"

definition zero_WKBPolygon :: WKBPolygon where
  "zero_WKBPolygon = \<lparr>byteOrder = 0, wkbType = 0, numRings = 0, rings = []\<rparr>"

definition WKBTypeFlags :: "string \<rightharpoonup> uint32" where
  "WKBTypeFlags = map_of
     [(''Geometry'', 0), (''Point'', 1), (''LineString'', 2), (''WKBPolygon'', 3),
      (''MultiPoint'', 4), (''MultiLineString'', 5), (''MultiPolygon'', 6),
      (''GeometryCollection'', 7)]"

text \<open>Reading a Go map at a key it does not hold gives the zero value.\<close>

definition WKBTypeFlags_at :: "string \<Rightarrow> uint32" where
  "WKBTypeFlags_at k = (case WKBTypeFlags k of None \<Rightarrow> 0 | Some v \<Rightarrow> v)"

text \<open>
  The loop of \<open>WKBPolygon.Init\<close>, by the number of rings still to read: each ring is
  initialised from \<open>bytes[i:]\<close> and the position moves on by what the ring consumed.
\<close>

fun polygon_rings :: "nat \<Rightarrow> byte slice \<Rightarrow> byte \<Rightarrow> nat \<Rightarrow> failure + (WKBLinearRing list \<times> nat)" where
  "polygon_rings 0 bytes order i = Inr ([], i)"
| "polygon_rings (Suc n) bytes order i =
     and_then (slice_from bytes i) (\<lambda>w.
     and_then (WKBLinearRing_Init zero_WKBLinearRing w order) (\<lambda>(r, bytesConsumed).
     and_then (polygon_rings n bytes order (i + bytesConsumed)) (\<lambda>(rs, i').
     Inr (r # rs, i'))))"

definition WKBPolygon_Init :: "WKBPolygon \<Rightarrow> byte slice \<Rightarrow> failure + (WKBPolygon \<times> nat)" where
  "WKBPolygon_Init p bytes =
     and_then (at bytes 0) (\<lambda>order.
     and_then (slice_range bytes 1 5) (\<lambda>w.
     and_then (bytesToUint32 w order) (\<lambda>t.
     if t \<noteq> WKBTypeFlags_at ''WKBPolygon''
     then Inl (Fatal (ExpectedPolygon (WKBTypeFlags_at ''WKBPolygon'') t))
     else and_then (slice_range bytes 5 9) (\<lambda>w'.
          and_then (bytesToUint32 w' order) (\<lambda>n.
          and_then (polygon_rings (unat n) bytes order 9) (\<lambda>(rs, i).
          Inr (p\<lparr>byteOrder := order, wkbType := t, rings := rs\<rparr>, i)))))))"

definition WKBPolygon_Type :: "WKBPolygon \<Rightarrow> uint32" where
  "WKBPolygon_Type p = wkbType p"

text \<open>
  The interface \<open>WKBGeometry\<close> has one implementation, \<open>*WKBPolygon\<close>; a nil interface
  value is \<open>None\<close>.
\<close>

datatype WKBGeometry = Polygon WKBPolygon

fun WKBGeometry_Init :: "WKBGeometry \<Rightarrow> byte slice \<Rightarrow> failure + (WKBGeometry \<times> nat)" where
  "WKBGeometry_Init (Polygon p) bytes =
     and_then (WKBPolygon_Init p bytes) (\<lambda>(p', i). Inr (Polygon p', i))"

definition newWKBGeometry :: "uint32 \<Rightarrow> event list \<times> WKBGeometry option" where
  "newWKBGeometry geomType =
     (if geomType = 3 then ([], Some (Polygon zero_WKBPolygon))
      else ([Error_Unimplemented geomType], None))"

definition readNextGeometry ::
  "byte slice \<Rightarrow> event list \<times> (failure + (WKBGeometry option \<times> nat))" where
  "readNextGeometry bytes =
     (if len bytes = 0 then ([], Inr (None, 0))
      else case and_then (at bytes 0) (\<lambda>order.
                and_then (slice_range bytes 1 5) (\<lambda>w. bytesToUint32 w order)) of
             Inl e \<Rightarrow> ([], Inl e)
           | Inr geomType \<Rightarrow>
               (case newWKBGeometry geomType of
                  (lg, None) \<Rightarrow> (lg, Inl (Fatal (NilGeometry geomType)))
                | (lg, Some newGeom) \<Rightarrow>
                    (lg, and_then (WKBGeometry_Init newGeom bytes) (\<lambda>(g, bytesConsumed).
                         Inr (Some g, bytesConsumed)))))"

section \<open>Geometry stream reader\<close>

text \<open>
  The loop of \<open>readGeometries\<close>: \<open>i\<close> is the read position and \<open>geoms\<close> the geometries
  collected so far (Go's nil slice is the empty list). The result carries the records
  logged by the calls of \<open>readNextGeometry\<close>, in order.
\<close>

function readGeometries_loop ::
  "byte slice \<Rightarrow> nat \<Rightarrow> WKBGeometry list \<Rightarrow> event list \<times> (failure + (WKBGeometry list \<times> nat))" where
  "readGeometries_loop bytes i geoms =
     (if i < len bytes then
        (case slice_from bytes i of
           Inl e \<Rightarrow> ([], Inl e)
         | Inr w \<Rightarrow>
             (case readNextGeometry w of
                (lg, Inl e) \<Rightarrow> (lg, Inl e)
              | (lg, Inr (geom, bytesConsumed)) \<Rightarrow>
                  (case readGeometries_loop bytes (i + bytesConsumed)
                          (case geom of None \<Rightarrow> geoms | Some g \<Rightarrow> geoms @ [g]) of
                     (lg', r) \<Rightarrow> (lg @ lg', r))))
      else ([], Inr (geoms, i)))"
  by pat_completeness auto

definition readGeometries ::
  "byte slice \<Rightarrow> event list \<times> (failure + (WKBGeometry list \<times> nat))" where
  "readGeometries bytes =
     (case readGeometries_loop bytes 0 [] of
        (lg, Inl e) \<Rightarrow> (Info_Reading (len bytes) # lg, Inl e)
      | (lg, Inr (geoms, i)) \<Rightarrow>
          (Info_Reading (len bytes) # lg @
             (if i \<noteq> len bytes then [Warn_ConsumedMismatch i (len bytes)] else []),
           Inr (geoms, i)))"

section \<open>GeoPackage binary header\<close>

text \<open>
  The field \<open>envelope\<close> is \<open>None\<close> for Go's nil slice, which \<open>Envelope()\<close> returns for a
  header that is not initialised; \<open>headerSize\<close> and \<open>Size()\<close> are Go's \<open>int\<close>.
\<close>

record GeoPackageBinaryHeader =
  initialized :: bool
  magic :: uint16
  version :: byte
  flags :: byte
  flagsReady :: bool
  srs_id :: int32
  envelope :: "float64 list option"
  headerSize :: int

definition bytesToInt32 :: "byte slice \<Rightarrow> byte \<Rightarrow> event list \<times> int32" where
  "bytesToInt32 bytes order =
     (if len bytes \<noteq> 4 then ([Error_Expecting4 (len bytes)], - 1)
      else
        let valueLittleEndian =
              push_bit 8 (push_bit 8 (push_bit 8 (ucast (elems bytes ! 3)) OR ucast (elems bytes ! 2))
                          OR ucast (elems bytes ! 1)) OR ucast (elems bytes ! 0);
            valueBigEndian =
              push_bit 8 (push_bit 8 (push_bit 8 (ucast (elems bytes ! 0)) OR ucast (elems bytes ! 1))
                          OR ucast (elems bytes ! 2)) OR ucast (elems bytes ! 3)
        in ([], if order = wkbNDR then valueLittleEndian
                else if order = wkbXDR then valueBigEndian
                else 0))"

definition isInitialized :: "GeoPackageBinaryHeader \<Rightarrow> string \<Rightarrow> event list \<times> bool" where
  "isInitialized h caller =
     (if \<not> initialized h then ([Error_NotInitialized caller], False) else ([], True))"

definition Magic :: "GeoPackageBinaryHeader \<Rightarrow> event list \<times> uint16" where
  "Magic h = (case isInitialized h ''Magic()'' of (lg, ok) \<Rightarrow> (lg, if ok then magic h else 0))"

definition Version :: "GeoPackageBinaryHeader \<Rightarrow> event list \<times> byte" where
  "Version h = (case isInitialized h ''Version()'' of (lg, ok) \<Rightarrow> (lg, if ok then version h else 0))"

definition EnvelopeType :: "GeoPackageBinaryHeader \<Rightarrow> event list \<times> byte" where
  "EnvelopeType h =
     (if flagsReady h then ([], drop_bit 1 (flags h AND 0xE))
      else ([Error_FlagsNotReady], 0))"

definition SRSId :: "GeoPackageBinaryHeader \<Rightarrow> event list \<times> int32" where
  "SRSId h = (case isInitialized h ''SRSId()'' of (lg, ok) \<Rightarrow> (lg, if ok then srs_id h else - 1))"

definition Envelope :: "GeoPackageBinaryHeader \<Rightarrow> event list \<times> float64 list option" where
  "Envelope h = (case isInitialized h ''Envelope()'' of (lg, ok) \<Rightarrow> (lg, if ok then envelope h else None))"

definition Size :: "GeoPackageBinaryHeader \<Rightarrow> event list \<times> int" where
  "Size h = (case isInitialized h ''Size()'' of (lg, ok) \<Rightarrow> (lg, if ok then headerSize h else - 1))"

text \<open>
  \<open>GeoPackageBinaryHeader.Init\<close> in its three parts. The magic number, from \<open>geom[0]\<close>
  and \<open>geom[1]\<close> by the byte-order bit of the flags:
\<close>

definition Init_magic :: "byte slice \<Rightarrow> byte \<Rightarrow> failure + uint16" where
  "Init_magic geom headerByteOrder =
     (if headerByteOrder = 1
      then and_then (at geom 0) (\<lambda>g0. and_then (at geom 1) (\<lambda>g1.
             Inr (push_bit 8 (ucast g0) OR ucast g1)))
      else and_then (at geom 1) (\<lambda>g1. and_then (at geom 0) (\<lambda>g0.
             Inr (push_bit 8 (ucast g1) OR ucast g0))))"

text \<open>
  The srs_id: \<open>geom[4:8]\<close> is decoded with \<open>wkbNDR\<close>; a value outside 0..9999 is decoded
  again with \<open>newByteOrder\<close>, which is little-endian unless the header's byte order is
  little-endian.
\<close>

definition implausible :: "int32 \<Rightarrow> bool" where
  "implausible v = (sint v < 0 \<or> sint v > 9999)"

definition Init_srs_id :: "byte slice \<Rightarrow> byte \<Rightarrow> event list \<times> (failure + int32)" where
  "Init_srs_id geom headerByteOrder =
     (case slice_range geom 4 8 of
        Inl e \<Rightarrow> ([], Inl e)
      | Inr w \<Rightarrow>
          (case bytesToInt32 w wkbNDR of (lg1, v1) \<Rightarrow>
             if implausible v1 then
               let newByteOrder = (if (1 :: byte) = headerByteOrder then 0 else 1);
                   lg2 = [Error_SrsInvalid v1 headerByteOrder, Error_TryingAgain newByteOrder]
               in (case slice_range geom 4 8 of
                     Inl e \<Rightarrow> (lg1 @ lg2, Inl e)
                   | Inr w' \<Rightarrow>
                       (case bytesToInt32 w' newByteOrder of (lg3, v2) \<Rightarrow>
                          if implausible v2
                          then (lg1 @ lg2 @ lg3 @ [Error_StillInvalid v2], Inr 0)
                          else (lg1 @ lg2 @ lg3 @ [Error_LooksValid v2], Inr v2)))
             else (lg1, Inr v1)))"

text \<open>
  The envelope: \<open>envelope_values geom order off k\<close> reads the \<open>k\<close> doubles at
  \<open>geom[off:off+8]\<close>, \<open>geom[off+8:off+16]\<close>, ... in this order, as the assignments of
  each case of the switch do from offset 8. The result of the switch is the envelope and
  \<open>hSize\<close>.
\<close>

fun envelope_values :: "byte slice \<Rightarrow> byte \<Rightarrow> nat \<Rightarrow> nat \<Rightarrow> failure + float64 list" where
  "envelope_values geom order off 0 = Inr []"
| "envelope_values geom order off (Suc k) =
     and_then (slice_range geom off (off + 8)) (\<lambda>w.
     and_then (bytesToFloat64 w order) (\<lambda>v.
     and_then (envelope_values geom order (off + 8) k) (\<lambda>vs.
     Inr (v # vs))))"

definition Init_envelope ::
  "byte slice \<Rightarrow> byte \<Rightarrow> byte \<Rightarrow> event list \<times> (failure + (float64 list \<times> int))" where
  "Init_envelope geom eType headerByteOrder =
     (if eType = 0 then ([], Inr ([], 8))
      else if eType = 1 then
        ([], and_then (envelope_values geom headerByteOrder 8 4) (\<lambda>env. Inr (env, 8 + 4 * 8)))
      else if eType = 2 then
        ([], and_then (envelope_values geom headerByteOrder 8 6) (\<lambda>env. Inr (env, 8 + 6 * 8)))
      else if eType = 3 then
        ([], and_then (envelope_values geom headerByteOrder 8 6) (\<lambda>env. Inr (env, 8 + 6 * 8)))
      else if eType = 4 then
        ([], and_then (envelope_values geom headerByteOrder 8 8) (\<lambda>env. Inr (env, 8 + 8 * 8)))
      else ([Error_InvalidEnvelope eType], Inr ([], 8)))"

definition GeoPackageBinaryHeader_Init ::
  "GeoPackageBinaryHeader \<Rightarrow> byte slice \<Rightarrow> event list \<times> (failure + GeoPackageBinaryHeader)" where
  "GeoPackageBinaryHeader_Init h geom =
     (case at geom 3 of
        Inl e \<Rightarrow> ([], Inl e)
      | Inr f \<Rightarrow>
          let h1 = h\<lparr>flags := f, flagsReady := True\<rparr>;
              headerByteOrder = flags h1 AND 0x01
          in (case and_then (Init_magic geom headerByteOrder) (\<lambda>m.
                   and_then (at geom 2) (\<lambda>v. Inr (h1\<lparr>magic := m, version := v\<rparr>))) of
                Inl e \<Rightarrow> ([], Inl e)
              | Inr h2 \<Rightarrow>
                  (case Init_srs_id geom headerByteOrder of
                     (lg1, Inl e) \<Rightarrow> (lg1, Inl e)
                   | (lg1, Inr s) \<Rightarrow>
                       let h3 = h2\<lparr>srs_id := s\<rparr> in
                       (case EnvelopeType h3 of (lg2, eType) \<Rightarrow>
                          (case Init_envelope geom eType headerByteOrder of
                             (lg3, Inl e) \<Rightarrow> (lg1 @ lg2 @ lg3, Inl e)
                           | (lg3, Inr (env, hSize)) \<Rightarrow>
                               (lg1 @ lg2 @ lg3 @ [Debug_HeaderSize hSize (len geom)],
                                Inr (h3\<lparr>envelope := Some env, headerSize := hSize,
                                        initialized := True\<rparr>)))))))"

text \<open>The zero value of the struct, before \<open>Init\<close>.\<close>

definition zero_GeoPackageBinaryHeader :: GeoPackageBinaryHeader where
  "zero_GeoPackageBinaryHeader =
     \<lparr>initialized = False, magic = 0, version = 0, flags = 0, flagsReady = False,
      srs_id = 0, envelope = None, headerSize = 0\<rparr>"

section \<open>The layout of a polygon blob\<close>

text \<open>
  The blobs the statement about single polygons is about, written on their bytes, in the
  words of the specification: byte 0 is the byte-order flag, 0 or 1; bytes 1 to 4 hold the
  type code 3 and bytes 5 to 8 the ring count; each ring is the four bytes of its point
  count followed by 16 bytes for each point, and nothing follows the last ring. The bytes
  of the points are arbitrary. \<open>uint32_bytes order m\<close> are the four bytes that hold the
  number \<open>m\<close>: most significant byte first for the flag 0, least significant byte first
  for the flag 1. \<open>ms\<close> are the point counts of the rings, in order.
\<close>

definition uint32_bytes :: "byte \<Rightarrow> nat \<Rightarrow> byte list" where
  "uint32_bytes order m =
     (if order = 0
      then [of_nat (m div 16777216 mod 256), of_nat (m div 65536 mod 256),
            of_nat (m div 256 mod 256), of_nat (m mod 256)]
      else [of_nat (m mod 256), of_nat (m div 256 mod 256),
            of_nat (m div 65536 mod 256), of_nat (m div 16777216 mod 256)])"

fun rings_layout :: "byte \<Rightarrow> byte list \<Rightarrow> nat \<Rightarrow> nat list \<Rightarrow> bool" where
  "rings_layout order bs off [] = (off = length bs)"
| "rings_layout order bs off (m # ms) =
     (m < 4294967296
      \<and> off + 4 + 16 * m \<le> length bs
      \<and> take 4 (drop off bs) = uint32_bytes order m
      \<and> rings_layout order bs (off + 4 + 16 * m) ms)"

definition polygon_blob :: "byte list \<Rightarrow> nat list \<Rightarrow> bool" where
  "polygon_blob bs ms =
     (case bs of
        [] \<Rightarrow> False
      | order # rest \<Rightarrow>
          (order = 0 \<or> order = 1)
          \<and> take 4 (drop 1 bs) = uint32_bytes order 3
          \<and> length ms < 4294967296
          \<and> take 4 (drop 5 bs) = uint32_bytes order (length ms)
          \<and> rings_layout order bs 9 ms)"

section \<open>Slices and the result type\<close>

lemma and_then_Inr [simp]: "and_then (Inr v) f = f v"
  by (simp add: and_then_def)

lemma and_then_Inl [simp]: "and_then (Inl e) f = Inl e"
  by (simp add: and_then_def)

lemma and_then_eq_Inr:
  "and_then m f = Inr r \<longleftrightarrow> (\<exists>v. m = Inr v \<and> f v = Inr r)"
  by (cases m) simp_all

lemma len_Slice [simp]: "len (Slice xs sp) = length xs"
  by (simp add: len_def)

lemma cap_Slice [simp]: "cap (Slice xs sp) = length xs + length sp"
  by (simp add: cap_def)

section \<open>Termination of the stream reader\<close>

lemma ring_points_position:
  "ring_points n bytes order i = Inr (pts, i') \<Longrightarrow> i' = i + 16 * n \<and> length pts = n"
proof (induction n arbitrary: i pts i')
  case 0
  then show ?case by simp
next
  case (Suc n)
  from Suc.prems show ?case
    by (auto simp: and_then_eq_Inr split: prod.splits dest!: Suc.IH)
qed

lemma polygon_rings_position:
  "polygon_rings n bytes order i = Inr (rs, i') \<Longrightarrow> i \<le> i' \<and> length rs = n"
proof (induction n arbitrary: i rs i')
  case 0
  then show ?case by simp
next
  case (Suc n)
  from Suc.prems show ?case
    by (auto simp: and_then_eq_Inr split: prod.splits dest!: Suc.IH)
qed

lemma WKBPolygon_Init_consumed:
  "WKBPolygon_Init p bytes = Inr (p', n) \<Longrightarrow> 9 \<le> n"
  by (auto simp: WKBPolygon_Init_def and_then_eq_Inr split: if_splits prod.splits
      dest: polygon_rings_position)

lemma readNextGeometry_consumed:
  "readNextGeometry bytes = (lg, Inr (geom, n)) \<Longrightarrow> len bytes \<noteq> 0 \<Longrightarrow> 9 \<le> n"
  by (cases "newWKBGeometry 3")
     (auto simp: readNextGeometry_def newWKBGeometry_def and_then_eq_Inr
       split: if_splits sum.splits prod.splits option.splits
       dest: WKBPolygon_Init_consumed)

termination readGeometries_loop
proof (relation "measure (\<lambda>(bytes, i, geoms). len bytes - i)")
  show "wf (measure (\<lambda>(bytes, i, geoms). len bytes - i))"
    by simp
next
  fix bytes :: "byte slice" and i :: nat and geoms :: "WKBGeometry list"
    and w lg r geom bytesConsumed and x :: "WKBGeometry option \<times> nat"
  assume "i < len bytes" and w: "slice_from bytes i = Inr w"
    and "(lg, r) = readNextGeometry w" and "r = Inr x" and "(geom, bytesConsumed) = x"
  then have "readNextGeometry w = (lg, Inr (geom, bytesConsumed))"
    by simp
  moreover from w \<open>i < len bytes\<close> have "len w \<noteq> 0"
    by (auto simp: slice_from_def len_def split: if_splits)
  ultimately have "9 \<le> bytesConsumed"
    by (rule readNextGeometry_consumed)
  with \<open>i < len bytes\<close>
  show "((bytes, i + bytesConsumed, case geom of None \<Rightarrow> geoms | Some g \<Rightarrow> geoms @ [g]),
         (bytes, i, geoms)) \<in> measure (\<lambda>(bytes, i, geoms). len bytes - i)"
    by simp
qed

section \<open>Scalar decoders on a window of the wrong length\<close>

text \<open>
  Claim C4, as the code has it: on a window whose length is not 4, \<open>bytesToInt32\<close> logs
  an error and returns the value -1 to its caller, where \<open>bytesToUint32\<close> (and
  \<open>bytesToFloat64\<close> on a window whose length is not 8) ends the process with
  \<open>log.Fatal\<close>.
\<close>

theorem bytesToInt32_wrong_length:
  assumes "len bytes \<noteq> 4"
  shows "bytesToInt32 bytes order = ([Error_Expecting4 (len bytes)], - 1)
       \<and> bytesToUint32 bytes order = Inl (Fatal (Need4Bytes (len bytes)))
       \<and> (len bytes \<noteq> 8 \<longrightarrow> bytesToFloat64 bytes order = Inl (Fatal (Need8Bytes (len bytes))))"
  using assms by (simp add: bytesToInt32_def bytesToUint32_def bytesToFloat64_def)

theorem bytesToInt32_wrong_length_witness:
  "len (Slice [0xE6, 0x10, 0 :: byte] []) \<noteq> 4
   \<and> len (Slice [0xE6, 0x10, 0 :: byte] []) \<noteq> 8
   \<and> bytesToInt32 (Slice [0xE6, 0x10, 0] []) wkbNDR = ([Error_Expecting4 3], - 1)
   \<and> bytesToUint32 (Slice [0xE6, 0x10, 0] []) wkbNDR = Inl (Fatal (Need4Bytes 3))
   \<and> bytesToFloat64 (Slice [0xE6, 0x10, 0] []) wkbNDR = Inl (Fatal (Need8Bytes 3))"
proof -
  have l: "len (Slice [0xE6, 0x10, 0 :: byte] []) \<noteq> 4"
    by simp
  from bytesToInt32_wrong_length [OF l, of wkbNDR] show ?thesis
    by simp
qed

text \<open>
  Claim C4 as the specification states it fails: on the three bytes 1, 2, 3 the int32
  decoder returns -1 and the decode goes on, while the uint32 decoder is fatal.
\<close>

theorem bytesToInt32_wrong_length_in_band:
  "bytesToInt32 (Slice [1, 2, 3] []) wkbNDR = ([Error_Expecting4 3], - 1)
   \<and> bytesToUint32 (Slice [1, 2, 3] []) wkbNDR = Inl (Fatal (Need4Bytes 3))"
  by (simp add: bytesToInt32_def bytesToUint32_def)

section \<open>Linear rings\<close>

text \<open>
  Claim C7: on a window of at least 4 bytes whose leading uint32, read in the given byte
  order, is 0, \<open>WKBLinearRing.Init\<close> sets an empty ring (no points) and returns 4, the
  number of bytes consumed.
\<close>

theorem empty_ring_consumes_four:
  assumes "4 \<le> len bytes"
    and "and_then (slice_range bytes 0 4) (\<lambda>w. bytesToUint32 w order) = Inr 0"
  shows "WKBLinearRing_Init lr bytes order = Inr (lr\<lparr>numPoints := 0, points := []\<rparr>, 4)"
  using assms
  by (auto simp: WKBLinearRing_Init_def and_then_eq_Inr)

theorem empty_ring_witness:
  "4 \<le> len (Slice [0, 0, 0, 0, 7, 7 :: byte] [])
   \<and> and_then (slice_range (Slice [0, 0, 0, 0, 7, 7] []) 0 4) (\<lambda>w. bytesToUint32 w wkbNDR) = Inr 0
   \<and> WKBLinearRing_Init zero_WKBLinearRing (Slice [0, 0, 0, 0, 7, 7] []) wkbNDR
       = Inr (\<lparr>numPoints = 0, points = []\<rparr>, 4)"
proof -
  have a: "4 \<le> len (Slice [0, 0, 0, 0, 7, 7 :: byte] [])"
    by simp
  have b: "and_then (slice_range (Slice [0, 0, 0, 0, 7, 7] []) 0 4) (\<lambda>w. bytesToUint32 w wkbNDR) = Inr 0"
    by (simp add: slice_range_def bytesToUint32_def LittleEndian_Uint32_def wkbNDR_def wkbXDR_def)
  from empty_ring_consumes_four [OF a b, of zero_WKBLinearRing] a b show ?thesis
    by (simp add: zero_WKBLinearRing_def)
qed

section \<open>The empty buffer\<close>

text \<open>
  Claim C10: on a buffer of length 0 (whatever its capacity), \<open>readGeometries\<close> returns
  no geometry and 0 bytes consumed, and logs only the length it reads, with no warning of
  a consumed-byte mismatch; \<open>readNextGeometry\<close> returns a nil geometry and 0 bytes
  consumed.
\<close>

theorem empty_buffer_reads_nothing:
  "readGeometries (Slice [] sp) = ([Info_Reading 0], Inr ([], 0))
   \<and> readNextGeometry (Slice [] sp) = ([], Inr (None, 0))"
  by (simp add: readGeometries_def readNextGeometry_def)

section \<open>Accessors of a header that is not initialised\<close>

text \<open>
  Claim C9: on a header whose \<open>initialized\<close> is false every accessor logs an error and
  returns its sentinel, whatever the fields hold: \<open>Magic()\<close> 0, \<open>Version()\<close> 0,
  \<open>SRSId()\<close> -1, \<open>Envelope()\<close> nil and \<open>Size()\<close> -1.
\<close>

theorem uninitialized_accessors_return_sentinels:
  assumes "\<not> initialized h"
  shows "Magic h = ([Error_NotInitialized ''Magic()''], 0)
       \<and> Version h = ([Error_NotInitialized ''Version()''], 0)
       \<and> SRSId h = ([Error_NotInitialized ''SRSId()''], - 1)
       \<and> Envelope h = ([Error_NotInitialized ''Envelope()''], None)
       \<and> Size h = ([Error_NotInitialized ''Size()''], - 1)"
  using assms
  by (simp add: Magic_def Version_def SRSId_def Envelope_def Size_def isInitialized_def)

theorem uninitialized_accessors_witness:
  "\<not> initialized (zero_GeoPackageBinaryHeader\<lparr>magic := 0x4750, srs_id := 4326, headerSize := 40\<rparr>)
   \<and> Magic (zero_GeoPackageBinaryHeader\<lparr>magic := 0x4750, srs_id := 4326, headerSize := 40\<rparr>)
       = ([Error_NotInitialized ''Magic()''], 0)
   \<and> sint (snd (SRSId (zero_GeoPackageBinaryHeader\<lparr>magic := 0x4750, srs_id := 4326, headerSize := 40\<rparr>))) = - 1
   \<and> snd (Envelope (zero_GeoPackageBinaryHeader\<lparr>magic := 0x4750, srs_id := 4326, headerSize := 40\<rparr>)) = None
   \<and> snd (Size (zero_GeoPackageBinaryHeader\<lparr>magic := 0x4750, srs_id := 4326, headerSize := 40\<rparr>)) = - 1"
proof -
  have z: "\<not> initialized (zero_GeoPackageBinaryHeader\<lparr>magic := 0x4750, srs_id := 4326, headerSize := 40\<rparr>)"
    by (simp add: zero_GeoPackageBinaryHeader_def)
  from uninitialized_accessors_return_sentinels [OF z] z show ?thesis
    by simp
qed

section \<open>What Init leaves in the header\<close>

lemma at_eq_Inr: "at s i = Inr v \<longleftrightarrow> i < len s \<and> v = elems s ! i"
  by (auto simp: at_def)

lemma envelope_values_length:
  "envelope_values geom order off k = Inr vs \<Longrightarrow> length vs = k"
proof (induction k arbitrary: off vs)
  case 0
  then show ?case by simp
next
  case (Suc k)
  from Suc.prems show ?case
    by (auto simp: and_then_eq_Inr dest!: Suc.IH)
qed

lemma Init_envelope_size:
  assumes "Init_envelope geom eType order = (lg, Inr (env, hSize))"
  shows "hSize = 8 + 8 * int (length env)"
    and "hSize = (if eType = 0 then 8 else if eType = 1 then 40
                  else if eType = 2 \<or> eType = 3 then 56 else if eType = 4 then 72 else 8)"
  using assms
  by (auto simp: Init_envelope_def and_then_eq_Inr split: if_splits dest!: envelope_values_length)

text \<open>
  A completed \<open>Init\<close> has read the flags, the magic number, the version, the srs_id and the
  envelope, and has overwritten every field of its receiver; and it completes whenever
  its parts do.
\<close>

lemma Init_result:
  assumes "GeoPackageBinaryHeader_Init h geom = (lg, Inr h')"
  shows "\<exists>f m v s lg1 lg3 env hSize.
           at geom 3 = Inr f \<and> Init_magic geom (f AND 1) = Inr m \<and> at geom 2 = Inr v
         \<and> Init_srs_id geom (f AND 1) = (lg1, Inr s)
         \<and> Init_envelope geom (drop_bit 1 (f AND 0xE)) (f AND 1) = (lg3, Inr (env, hSize))
         \<and> lg = lg1 @ lg3 @ [Debug_HeaderSize hSize (len geom)]
         \<and> h' = \<lparr>initialized = True, magic = m, version = v, flags = f, flagsReady = True,
                 srs_id = s, envelope = Some env, headerSize = hSize\<rparr>"
  using assms
  by (cases h)
     (auto simp: GeoPackageBinaryHeader_Init_def Let_def EnvelopeType_def and_then_eq_Inr
       split: sum.splits prod.splits)

lemma Init_composed:
  assumes "at geom 3 = Inr f" "Init_magic geom (f AND 1) = Inr m" "at geom 2 = Inr v"
    and "Init_srs_id geom (f AND 1) = (lg1, Inr s)"
    and "Init_envelope geom (drop_bit 1 (f AND 0xE)) (f AND 1) = (lg3, Inr (env, hSize))"
  shows "GeoPackageBinaryHeader_Init h geom =
           (lg1 @ lg3 @ [Debug_HeaderSize hSize (len geom)],
            Inr \<lparr>initialized = True, magic = m, version = v, flags = f, flagsReady = True,
                 srs_id = s, envelope = Some env, headerSize = hSize\<rparr>)"
  using assms
  by (cases h)
     (simp add: GeoPackageBinaryHeader_Init_def Let_def EnvelopeType_def)

lemma Init_magic_returns:
  "3 < len geom \<Longrightarrow> \<exists>m. Init_magic geom order = Inr m"
  by (simp add: Init_magic_def at_def)

lemma Init_srs_id_returns:
  "8 \<le> cap geom \<Longrightarrow> \<exists>lg s. Init_srs_id geom order = (lg, Inr s)"
  by (simp add: Init_srs_id_def slice_range_def Let_def split: prod.splits)

section \<open>The magic number\<close>

text \<open>
  Claim C1, as the code has it: in a header whose flags have the byte-order bit set,
  \<open>Init\<close> puts \<open>geom[0]\<close> in the high byte of the magic number and \<open>geom[1]\<close> in the low
  byte. So on the first two bytes 0x50, 0x47 \<open>Magic()\<close> returns 0x5047, and it returns
  0x4750 on the bytes 0x47, 0x50 (the letters GP, the value the struct's comment expects).
\<close>

theorem magic_of_little_endian_header:
  assumes "GeoPackageBinaryHeader_Init h geom = (lg, Inr h')"
    and "at geom 3 = Inr f" and "f AND 1 = 1"
    and "at geom 0 = Inr g0" and "at geom 1 = Inr g1"
  shows "Magic h' = ([], push_bit 8 (ucast g0) OR ucast g1)
       \<and> (g0 = 0x50 \<and> g1 = 0x47 \<longrightarrow> Magic h' = ([], 0x5047))
       \<and> (g0 = 0x47 \<and> g1 = 0x50 \<longrightarrow> Magic h' = ([], 0x4750))"
proof -
  from Init_result [OF assms(1)] assms(2,3) obtain m v s env hSize where
    m: "Init_magic geom 1 = Inr m"
    and h': "h' = \<lparr>initialized = True, magic = m, version = v, flags = f, flagsReady = True,
                 srs_id = s, envelope = Some env, headerSize = hSize\<rparr>"
    by auto
  from m assms(4,5) have "m = push_bit 8 (ucast g0) OR ucast g1"
    by (simp add: Init_magic_def)
  with h' have "Magic h' = ([], push_bit 8 (ucast g0) OR ucast g1)"
    by (simp add: Magic_def isInitialized_def)
  then show ?thesis
    by auto
qed

theorem magic_witness:
  "GeoPackageBinaryHeader_Init zero_GeoPackageBinaryHeader
     (Slice [0x47, 0x50, 0, 0x01, 0xE6, 0x10, 0, 0] [])
   = ([Debug_HeaderSize 8 8],
      Inr \<lparr>initialized = True, magic = 0x4750, version = 0, flags = 0x01, flagsReady = True,
           srs_id = 4326, envelope = Some [], headerSize = 8\<rparr>)
   \<and> Magic \<lparr>initialized = True, magic = 0x4750, version = 0, flags = 0x01, flagsReady = True,
           srs_id = 4326, envelope = Some [], headerSize = 8\<rparr> = ([], 0x4750)
   \<and> GeoPackageBinaryHeader_Init zero_GeoPackageBinaryHeader
     (Slice [0x50, 0x47, 0, 0x21, 0xE6, 0x10, 0, 0] [])
   = ([Debug_HeaderSize 8 8],
      Inr \<lparr>initialized = True, magic = 0x5047, version = 0, flags = 0x21, flagsReady = True,
           srs_id = 4326, envelope = Some [], headerSize = 8\<rparr>)
   \<and> Magic \<lparr>initialized = True, magic = 0x5047, version = 0, flags = 0x21, flagsReady = True,
           srs_id = 4326, envelope = Some [], headerSize = 8\<rparr> = ([], 0x5047)"
proof -
  have i1: "GeoPackageBinaryHeader_Init zero_GeoPackageBinaryHeader
     (Slice [0x47, 0x50, 0, 0x01, 0xE6, 0x10, 0, 0] [])
   = ([Debug_HeaderSize 8 8],
      Inr \<lparr>initialized = True, magic = 0x4750, version = 0, flags = 0x01, flagsReady = True,
           srs_id = 4326, envelope = Some [], headerSize = 8\<rparr>)"
    by code_simp
  have i2: "GeoPackageBinaryHeader_Init zero_GeoPackageBinaryHeader
     (Slice [0x50, 0x47, 0, 0x21, 0xE6, 0x10, 0, 0] [])
   = ([Debug_HeaderSize 8 8],
      Inr \<lparr>initialized = True, magic = 0x5047, version = 0, flags = 0x21, flagsReady = True,
           srs_id = 4326, envelope = Some [], headerSize = 8\<rparr>)"
    by code_simp
  have f1: "(0x01 :: byte) AND 1 = 1" and f2: "(0x21 :: byte) AND 1 = 1"
    by simp_all
  from magic_of_little_endian_header [OF i1 _ f1, of "0x47" "0x50"]
       magic_of_little_endian_header [OF i2 _ f2, of "0x50" "0x47"] i1 i2
  show ?thesis
    by (simp add: at_def)
qed

text \<open>
  Claim C1 as the specification states it fails: with the byte-order bit set and the
  first two bytes 0x50, 0x47, \<open>Magic()\<close> returns 0x5047, not 0x4750.
\<close>

theorem magic_little_endian_bytes_50_47:
  "GeoPackageBinaryHeader_Init zero_GeoPackageBinaryHeader
     (Slice [0x50, 0x47, 0, 0x01, 0, 0, 0, 0] [])
   = ([Debug_HeaderSize 8 8],
      Inr \<lparr>initialized = True, magic = 0x5047, version = 0, flags = 0x01, flagsReady = True,
           srs_id = 0, envelope = Some [], headerSize = 8\<rparr>)
   \<and> Magic \<lparr>initialized = True, magic = 0x5047, version = 0, flags = 0x01, flagsReady = True,
           srs_id = 0, envelope = Some [], headerSize = 8\<rparr> = ([], 0x5047)
   \<and> (0x5047 :: uint16) \<noteq> 0x4750"
  by code_simp

section \<open>The srs_id\<close>

text \<open>
  What \<open>Init\<close> computes for the srs_id, by the byte-order bit of the header. With the bit
  set, the second decode is big-endian; with the bit clear, \<open>newByteOrder\<close> stays
  little-endian and the second decode repeats the first.
\<close>

lemma Init_srs_id_little_endian_header:
  assumes "slice_range geom 4 8 = Inr w"
  shows "snd (Init_srs_id geom 1) =
           Inr (if implausible (snd (bytesToInt32 w wkbNDR))
                then if implausible (snd (bytesToInt32 w wkbXDR)) then 0
                     else snd (bytesToInt32 w wkbXDR)
                else snd (bytesToInt32 w wkbNDR))"
  using assms
  by (simp add: Init_srs_id_def Let_def wkbXDR_def split: prod.splits)

lemma Init_srs_id_big_endian_header:
  assumes "slice_range geom 4 8 = Inr w"
  shows "snd (Init_srs_id geom 0) =
           Inr (if implausible (snd (bytesToInt32 w wkbNDR)) then 0
                else snd (bytesToInt32 w wkbNDR))"
  using assms
  by (simp add: Init_srs_id_def Let_def wkbNDR_def split: prod.splits)

text \<open>
  The values of the specification's example cannot be read from the same four bytes: a
  window whose little-endian value is -5 has the first byte 0xFB, and the big-endian
  value 4326 has the first byte 0.
\<close>

lemma no_window_minus5_and_4326:
  assumes "len w = 4" and "snd (bytesToInt32 w wkbNDR) = - 5"
  shows "snd (bytesToInt32 w wkbXDR) \<noteq> 4326"
proof
  assume be: "snd (bytesToInt32 w wkbXDR) = 4326"
  from assms have "take_bit 8 (snd (bytesToInt32 w wkbNDR)) = (take_bit 8 (- 5) :: int32)"
    by simp
  moreover have "take_bit 8 (snd (bytesToInt32 w wkbNDR)) = (ucast (elems w ! 0) :: int32)"
    using assms(1)
    by (simp add: bytesToInt32_def Let_def wkbNDR_def wkbXDR_def)
       (rule bit_word_eqI, auto simp: bit_simps dest: bit_imp_le_length)
  moreover from be have "drop_bit 24 (snd (bytesToInt32 w wkbXDR)) = (drop_bit 24 4326 :: int32)"
    by simp
  moreover have "drop_bit 24 (snd (bytesToInt32 w wkbXDR)) = (ucast (elems w ! 0) :: int32)"
    using assms(1)
    by (simp add: bytesToInt32_def Let_def wkbNDR_def wkbXDR_def)
       (rule bit_word_eqI, auto simp: bit_simps dest: bit_imp_le_length)
  ultimately have "(take_bit 8 (- 5) :: int32) = drop_bit 24 4326"
    by simp
  then show False
    by code_simp
qed

text \<open>
  Claim C2 on the code: a header with the byte-order bit clear whose bytes 4 to 7 are
  00 00 10 E6. Their little-endian value is negative and their big-endian value is 4326,
  yet the second decode is little-endian again and \<open>SRSId()\<close> returns 0.
\<close>

theorem srs_id_big_endian_header_reset:
  "GeoPackageBinaryHeader_Init zero_GeoPackageBinaryHeader
     (Slice [0x47, 0x50, 0, 0x00, 0x00, 0x00, 0x10, 0xE6] [])
   = ([Error_SrsInvalid 0xE6100000 0, Error_TryingAgain 1, Error_StillInvalid 0xE6100000,
       Debug_HeaderSize 8 8],
      Inr \<lparr>initialized = True, magic = 0x5047, version = 0, flags = 0, flagsReady = True,
           srs_id = 0, envelope = Some [], headerSize = 8\<rparr>)
   \<and> SRSId \<lparr>initialized = True, magic = 0x5047, version = 0, flags = 0, flagsReady = True,
           srs_id = 0, envelope = Some [], headerSize = 8\<rparr> = ([], 0)
   \<and> bytesToInt32 (Slice [0x00, 0x00, 0x10, 0xE6] []) wkbNDR = ([], 0xE6100000)
   \<and> implausible 0xE6100000
   \<and> bytesToInt32 (Slice [0x00, 0x00, 0x10, 0xE6] []) wkbXDR = ([], 4326)
   \<and> \<not> implausible 4326"
  by code_simp

section \<open>The envelope and the size of the header\<close>

text \<open>
  Claim C5: after a completed \<open>Init\<close>, \<open>Size()\<close> follows the envelope-type code of the
  flags byte \<open>geom[3]\<close>: 8 for code 0, 40 for code 1, 56 for codes 2 and 3, 72 for code 4;
  and it is 8 plus 8 times the number of doubles in the envelope.
\<close>

theorem header_size_by_envelope_type:
  assumes "GeoPackageBinaryHeader_Init h geom = (lg, Inr h')"
  shows "(snd (EnvelopeType h') = 0 \<longrightarrow> Size h' = ([], 8))
       \<and> (snd (EnvelopeType h') = 1 \<longrightarrow> Size h' = ([], 40))
       \<and> (snd (EnvelopeType h') = 2 \<or> snd (EnvelopeType h') = 3 \<longrightarrow> Size h' = ([], 56))
       \<and> (snd (EnvelopeType h') = 4 \<longrightarrow> Size h' = ([], 72))
       \<and> (\<exists>env. Envelope h' = ([], Some env) \<and> Size h' = ([], 8 + 8 * int (length env)))
       \<and> (\<exists>f. at geom 3 = Inr f \<and> EnvelopeType h' = ([], drop_bit 1 (f AND 0xE)))"
proof -
  from Init_result [OF assms] obtain f m v s lg1 lg3 env hSize where
    f: "at geom 3 = Inr f"
    and e: "Init_envelope geom (drop_bit 1 (f AND 0xE)) (f AND 1) = (lg3, Inr (env, hSize))"
    and h': "h' = \<lparr>initialized = True, magic = m, version = v, flags = f, flagsReady = True,
                 srs_id = s, envelope = Some env, headerSize = hSize\<rparr>"
    by blast
  from h' have t: "EnvelopeType h' = ([], drop_bit 1 (f AND 0xE))"
    by (simp add: EnvelopeType_def)
  from h' have sz: "Size h' = ([], hSize)" and env: "Envelope h' = ([], Some env)"
    by (simp_all add: Size_def Envelope_def isInitialized_def)
  from Init_envelope_size [OF e] t sz env f show ?thesis
    by auto
qed

theorem header_size_witness:
  "GeoPackageBinaryHeader_Init zero_GeoPackageBinaryHeader (Slice [0x47, 0x50, 0, 0x03, 0x11, 0x0F, 0, 0,
      0, 0, 0, 0, 0, 0, 0, 0,
      0, 0, 0, 0, 0, 0, 0xF0, 0x3F,
      0, 0, 0, 0, 0, 0, 0, 0,
      0, 0, 0, 0, 0, 0, 0xF0, 0x3F] [])
   = ([Debug_HeaderSize 40 40], Inr \<lparr>initialized = True, magic = 0x4750, version = 0, flags = 0x03, flagsReady = True,
           srs_id = 3857, envelope = Some [0, 0x3FF0000000000000, 0, 0x3FF0000000000000],
           headerSize = 40\<rparr>)
   \<and> EnvelopeType \<lparr>initialized = True, magic = 0x4750, version = 0, flags = 0x03, flagsReady = True,
           srs_id = 3857, envelope = Some [0, 0x3FF0000000000000, 0, 0x3FF0000000000000],
           headerSize = 40\<rparr> = ([], 1)
   \<and> Size \<lparr>initialized = True, magic = 0x4750, version = 0, flags = 0x03, flagsReady = True,
           srs_id = 3857, envelope = Some [0, 0x3FF0000000000000, 0, 0x3FF0000000000000],
           headerSize = 40\<rparr> = ([], 40)
   \<and> GeoPackageBinaryHeader_Init zero_GeoPackageBinaryHeader (Slice [0x47, 0x50, 0, 0x08, 0, 0, 0x10, 0xE6,
      0x3F, 0xF0, 0, 0, 0, 0, 0, 0,
      0x3F, 0xF0, 0, 0, 0, 0, 0, 0,
      0x3F, 0xF0, 0, 0, 0, 0, 0, 0,
      0x3F, 0xF0, 0, 0, 0, 0, 0, 0,
      0x3F, 0xF0, 0, 0, 0, 0, 0, 0,
      0x3F, 0xF0, 0, 0, 0, 0, 0, 0,
      0x3F, 0xF0, 0, 0, 0, 0, 0, 0,
      0x3F, 0xF0, 0, 0, 0, 0, 0, 0] [])
   = ([Error_SrsInvalid 0xE6100000 0, Error_TryingAgain 1, Error_StillInvalid 0xE6100000,
       Debug_HeaderSize 72 72], Inr \<lparr>initialized = True, magic = 0x5047, version = 0, flags = 0x08, flagsReady = True,
           srs_id = 0,
           envelope = Some [0x3FF0000000000000, 0x3FF0000000000000, 0x3FF0000000000000,
                            0x3FF0000000000000, 0x3FF0000000000000, 0x3FF0000000000000,
                            0x3FF0000000000000, 0x3FF0000000000000],
           headerSize = 72\<rparr>)
   \<and> EnvelopeType \<lparr>initialized = True, magic = 0x5047, version = 0, flags = 0x08, flagsReady = True,
           srs_id = 0,
           envelope = Some [0x3FF0000000000000, 0x3FF0000000000000, 0x3FF0000000000000,
                            0x3FF0000000000000, 0x3FF0000000000000, 0x3FF0000000000000,
                            0x3FF0000000000000, 0x3FF0000000000000],
           headerSize = 72\<rparr> = ([], 4)
   \<and> Size \<lparr>initialized = True, magic = 0x5047, version = 0, flags = 0x08, flagsReady = True,
           srs_id = 0,
           envelope = Some [0x3FF0000000000000, 0x3FF0000000000000, 0x3FF0000000000000,
                            0x3FF0000000000000, 0x3FF0000000000000, 0x3FF0000000000000,
                            0x3FF0000000000000, 0x3FF0000000000000],
           headerSize = 72\<rparr> = ([], 72)"
proof -
  have i: "GeoPackageBinaryHeader_Init zero_GeoPackageBinaryHeader (Slice [0x47, 0x50, 0, 0x03, 0x11, 0x0F, 0, 0,
      0, 0, 0, 0, 0, 0, 0, 0,
      0, 0, 0, 0, 0, 0, 0xF0, 0x3F,
      0, 0, 0, 0, 0, 0, 0, 0,
      0, 0, 0, 0, 0, 0, 0xF0, 0x3F] [])
   = ([Debug_HeaderSize 40 40], Inr \<lparr>initialized = True, magic = 0x4750, version = 0, flags = 0x03, flagsReady = True,
           srs_id = 3857, envelope = Some [0, 0x3FF0000000000000, 0, 0x3FF0000000000000],
           headerSize = 40\<rparr>)"
    by code_simp
  have t: "EnvelopeType \<lparr>initialized = True, magic = 0x4750, version = 0, flags = 0x03, flagsReady = True,
           srs_id = 3857, envelope = Some [0, 0x3FF0000000000000, 0, 0x3FF0000000000000],
           headerSize = 40\<rparr> = ([], 1)"
    by code_simp
  have i4: "GeoPackageBinaryHeader_Init zero_GeoPackageBinaryHeader (Slice [0x47, 0x50, 0, 0x08, 0, 0, 0x10, 0xE6,
      0x3F, 0xF0, 0, 0, 0, 0, 0, 0,
      0x3F, 0xF0, 0, 0, 0, 0, 0, 0,
      0x3F, 0xF0, 0, 0, 0, 0, 0, 0,
      0x3F, 0xF0, 0, 0, 0, 0, 0, 0,
      0x3F, 0xF0, 0, 0, 0, 0, 0, 0,
      0x3F, 0xF0, 0, 0, 0, 0, 0, 0,
      0x3F, 0xF0, 0, 0, 0, 0, 0, 0,
      0x3F, 0xF0, 0, 0, 0, 0, 0, 0] [])
   = ([Error_SrsInvalid 0xE6100000 0, Error_TryingAgain 1, Error_StillInvalid 0xE6100000,
       Debug_HeaderSize 72 72], Inr \<lparr>initialized = True, magic = 0x5047, version = 0, flags = 0x08, flagsReady = True,
           srs_id = 0,
           envelope = Some [0x3FF0000000000000, 0x3FF0000000000000, 0x3FF0000000000000,
                            0x3FF0000000000000, 0x3FF0000000000000, 0x3FF0000000000000,
                            0x3FF0000000000000, 0x3FF0000000000000],
           headerSize = 72\<rparr>)"
    by code_simp
  have t4: "EnvelopeType \<lparr>initialized = True, magic = 0x5047, version = 0, flags = 0x08, flagsReady = True,
           srs_id = 0,
           envelope = Some [0x3FF0000000000000, 0x3FF0000000000000, 0x3FF0000000000000,
                            0x3FF0000000000000, 0x3FF0000000000000, 0x3FF0000000000000,
                            0x3FF0000000000000, 0x3FF0000000000000],
           headerSize = 72\<rparr> = ([], 4)"
    by code_simp
  from header_size_by_envelope_type [OF i] header_size_by_envelope_type [OF i4] i t i4 t4
  show ?thesis
    by simp
qed

text \<open>
  Claim C3, as the code has it: on a blob of length at least 4 and capacity at least 8
  whose flags encode an envelope-type code 5, 6 or 7, \<open>Init\<close> logs the invalid code and
  completes: the header is initialised, with an empty envelope and the size 8.
\<close>

theorem invalid_envelope_type_completes:
  assumes "at geom 3 = Inr f" and "8 \<le> cap geom"
    and "drop_bit 1 (f AND 0xE) \<in> {5, 6, 7}"
  shows "\<exists>lg h'. GeoPackageBinaryHeader_Init h geom = (lg, Inr h')
           \<and> Error_InvalidEnvelope (drop_bit 1 (f AND 0xE)) \<in> set lg
           \<and> initialized h' \<and> Envelope h' = ([], Some []) \<and> Size h' = ([], 8)"
proof -
  from assms(1) have l: "3 < len geom" and "at geom 2 = Inr (elems geom ! 2)"
    by (simp_all add: at_eq_Inr)
  moreover from Init_magic_returns [OF l] obtain m where "Init_magic geom (f AND 1) = Inr m"
    by blast
  moreover from Init_srs_id_returns [OF assms(2)] obtain lg1 s
    where "Init_srs_id geom (f AND 1) = (lg1, Inr s)"
    by blast
  moreover from assms(3)
  have "Init_envelope geom (drop_bit 1 (f AND 0xE)) (f AND 1)
          = ([Error_InvalidEnvelope (drop_bit 1 (f AND 0xE))], Inr ([], 8))"
    by (auto simp: Init_envelope_def)
  ultimately show ?thesis
    using Init_composed [OF assms(1), of m _ lg1 s _ "[]" 8 h]
    by (simp add: Size_def Envelope_def isInitialized_def)
qed

theorem invalid_envelope_type_witness:
  "at (Slice [0x47, 0x50, 1, 0x0E, 0, 0, 0x0F, 0x11] []) 3 = Inr 0x0E
   \<and> 8 \<le> cap (Slice [0x47, 0x50, 1, 0x0E, 0, 0, 0x0F, 0x11 :: byte] [])
   \<and> drop_bit 1 (0x0E AND 0xE :: byte) \<in> {5, 6, 7}
   \<and> (\<exists>lg h'. GeoPackageBinaryHeader_Init zero_GeoPackageBinaryHeader
                  (Slice [0x47, 0x50, 1, 0x0E, 0, 0, 0x0F, 0x11] []) = (lg, Inr h')
           \<and> Error_InvalidEnvelope 7 \<in> set lg
           \<and> initialized h' \<and> Envelope h' = ([], Some []) \<and> Size h' = ([], 8))"
proof -
  have a: "at (Slice [0x47, 0x50, 1, 0x0E, 0, 0, 0x0F, 0x11] []) 3 = Inr 0x0E"
    by (simp add: at_def)
  have b: "8 \<le> cap (Slice [0x47, 0x50, 1, 0x0E, 0, 0, 0x0F, 0x11 :: byte] [])"
    by simp
  have c: "drop_bit 1 (0x0E AND 0xE :: byte) = 7"
    by code_simp
  then have d: "drop_bit 1 (0x0E AND 0xE :: byte) \<in> {5, 6, 7}"
    by simp
  from invalid_envelope_type_completes [OF a b d, of zero_GeoPackageBinaryHeader] a b c d
  show ?thesis
    by simp
qed

text \<open>
  Claim C3 as the specification states it fails: on a header whose flags byte is 0x0B
  (envelope-type code 5) the decode is not aborted, and the header ends initialised with
  the size 8.
\<close>

theorem invalid_envelope_type_initialized:
  "GeoPackageBinaryHeader_Init zero_GeoPackageBinaryHeader
     (Slice [0x47, 0x50, 0, 0x0B, 0xE6, 0x10, 0, 0] [])
   = ([Error_InvalidEnvelope 5, Debug_HeaderSize 8 8],
      Inr \<lparr>initialized = True, magic = 0x4750, version = 0, flags = 0x0B, flagsReady = True,
           srs_id = 4326, envelope = Some [], headerSize = 8\<rparr>)
   \<and> EnvelopeType \<lparr>initialized = True, magic = 0x4750, version = 0, flags = 0x0B, flagsReady = True,
           srs_id = 4326, envelope = Some [], headerSize = 8\<rparr> = ([], 5)
   \<and> Size \<lparr>initialized = True, magic = 0x4750, version = 0, flags = 0x0B, flagsReady = True,
           srs_id = 4326, envelope = Some [], headerSize = 8\<rparr> = ([], 8)"
  by code_simp

section \<open>Decoding a polygon\<close>

lemma slice_range_within:
  "i \<le> j \<Longrightarrow> j \<le> length xs \<Longrightarrow>
   slice_range (Slice xs sp) i j = Inr (Slice (take (j - i) (drop i xs)) (drop j xs @ sp))"
  by (simp add: slice_range_def)

lemma slice_from_within:
  "i \<le> length xs \<Longrightarrow> slice_from (Slice xs sp) i = Inr (Slice (drop i xs) sp)"
  by (simp add: slice_from_def)

text \<open>
  The scalar codec reads a count back from its four bytes, in either byte order: the
  byte at \<open>m div 2 ^ k mod 256\<close> is the byte of the word at bit \<open>k\<close>, and the four bytes
  shifted to their places give the word again.
\<close>

lemma byte_of_count:
  assumes "k \<le> 24"
  shows "(of_nat (m div 2 ^ k mod 256) :: byte) = ucast (drop_bit k (of_nat m :: uint32))"
proof (rule bit_word_eqI)
  fix n assume "n < LENGTH(8)"
  then have n: "n < 8" by simp
  have "m div 2 ^ k mod 256 = take_bit 8 (drop_bit k m)"
    by (simp add: take_bit_eq_mod drop_bit_eq_div)
  with n assms show "bit (of_nat (m div 2 ^ k mod 256) :: byte) n
        = bit (ucast (drop_bit k (of_nat m :: uint32)) :: byte) n"
    by (auto simp: bit_simps)
qed

lemma uint32_of_its_bytes:
  "(ucast (ucast n :: byte) OR push_bit 8 (ucast (ucast (drop_bit 8 n) :: byte))
    OR push_bit 16 (ucast (ucast (drop_bit 16 n) :: byte))
    OR push_bit 24 (ucast (ucast (drop_bit 24 n) :: byte))) = (n :: uint32)"
proof (rule bit_word_eqI)
  fix k assume "k < LENGTH(32)"
  then consider "k < 8" | "8 \<le> k" "k < 16" | "16 \<le> k" "k < 24" | "24 \<le> k" "k < 32"
    by fastforce
  then show "bit (ucast (ucast n :: byte) OR push_bit 8 (ucast (ucast (drop_bit 8 n) :: byte))
               OR push_bit 16 (ucast (ucast (drop_bit 16 n) :: byte))
               OR push_bit 24 (ucast (ucast (drop_bit 24 n) :: byte)) :: uint32) k = bit n k"
    by cases (auto simp: bit_simps)
qed

lemma uint32_bytes_words:
  "uint32_bytes order m =
     (if order = 0
      then [ucast (drop_bit 24 (of_nat m :: uint32)), ucast (drop_bit 16 (of_nat m :: uint32)),
            ucast (drop_bit 8 (of_nat m :: uint32)), ucast (of_nat m :: uint32)]
      else [ucast (of_nat m :: uint32), ucast (drop_bit 8 (of_nat m :: uint32)),
            ucast (drop_bit 16 (of_nat m :: uint32)), ucast (drop_bit 24 (of_nat m :: uint32))])"
  using byte_of_count [of 0 m] byte_of_count [of 8 m] byte_of_count [of 16 m]
    byte_of_count [of 24 m]
  by (simp add: uint32_bytes_def)

lemma bytesToUint32_uint32_bytes:
  assumes "order = 0 \<or> order = 1"
  shows "bytesToUint32 (Slice (uint32_bytes order m) sp) order = Inr (of_nat m)"
  using assms uint32_of_its_bytes [of "of_nat m"]
  by (auto simp: uint32_bytes_words bytesToUint32_def BigEndian_Uint32_def
      LittleEndian_Uint32_def wkbXDR_def wkbNDR_def)

lemma unat_of_count:
  "m < 4294967296 \<Longrightarrow> unat (of_nat m :: uint32) = m"
  by (simp add: unat_of_nat)

lemma bytesToFloat64_returns:
  "length xs = 8 \<Longrightarrow> order = 0 \<or> order = 1 \<Longrightarrow>
   \<exists>v. bytesToFloat64 (Slice xs sp) order = Inr v"
  by (auto simp: bytesToFloat64_def BigEndian_Uint64_def LittleEndian_Uint64_def
      wkbXDR_def wkbNDR_def)

lemma WKBPoint_Init_returns:
  assumes "length xs = 16" and "order = 0 \<or> order = 1"
  shows "\<exists>pt. WKBPoint_Init p (Slice xs sp) order = Inr (pt, 16)"
proof -
  from assms obtain v1 where
    "bytesToFloat64 (Slice (take 8 xs) (drop 8 xs @ sp)) order = Inr v1"
    using bytesToFloat64_returns [of "take 8 xs" order] by auto
  moreover from assms obtain v2 where
    "bytesToFloat64 (Slice (take 8 (drop 8 xs)) (drop 16 xs @ sp)) order = Inr v2"
    using bytesToFloat64_returns [of "take 8 (drop 8 xs)" order] by auto
  ultimately show ?thesis
    using assms(1) by (simp add: WKBPoint_Init_def slice_range_within)
qed

lemma ring_points_returns:
  assumes "order = 0 \<or> order = 1"
  shows "i + 16 * m \<le> length xs \<Longrightarrow>
         \<exists>pts. ring_points m (Slice xs sp) order i = Inr (pts, i + 16 * m) \<and> length pts = m"
proof (induction m arbitrary: i)
  case 0
  then show ?case by simp
next
  case (Suc m)
  then have w: "slice_range (Slice xs sp) i (i + 16)
                  = Inr (Slice (take 16 (drop i xs)) (drop (i + 16) xs @ sp))"
    by (simp add: slice_range_within)
  from Suc.prems have "length (take 16 (drop i xs)) = 16"
    by simp
  from WKBPoint_Init_returns [OF this assms] obtain pt where
    pt: "WKBPoint_Init zero_WKBPoint (Slice (take 16 (drop i xs)) (drop (i + 16) xs @ sp)) order
           = Inr (pt, 16)"
    by blast
  from Suc.prems have "i + 16 + 16 * m \<le> length xs"
    by simp
  from Suc.IH [OF this] obtain pts where
    "ring_points m (Slice xs sp) order (i + 16) = Inr (pts, i + 16 + 16 * m)" and "length pts = m"
    by blast
  with w pt show ?case
    by simp
qed

lemma WKBLinearRing_Init_returns:
  assumes "order = 0 \<or> order = 1" and "m < 4294967296"
    and "take 4 (drop off bs) = uint32_bytes order m" and "off + 4 + 16 * m \<le> length bs"
  shows "\<exists>pts. WKBLinearRing_Init lr (Slice (drop off bs) sp) order
                 = Inr (lr\<lparr>numPoints := of_nat m, points := pts\<rparr>, 4 + 16 * m)
               \<and> length pts = m"
proof -
  from assms(4) have w: "slice_range (Slice (drop off bs) sp) 0 4
           = Inr (Slice (take 4 (drop off bs)) (drop 4 (drop off bs) @ sp))"
    by (simp add: slice_range_within)
  from assms(1,3)
  have n: "bytesToUint32 (Slice (take 4 (drop off bs)) (drop 4 (drop off bs) @ sp)) order
           = Inr (of_nat m)"
    by (simp add: bytesToUint32_uint32_bytes)
  from assms(4) have "4 + 16 * m \<le> length (drop off bs)"
    by simp
  from ring_points_returns [OF assms(1) this] obtain pts where
    p: "ring_points m (Slice (drop off bs) sp) order 4 = Inr (pts, 4 + 16 * m)"
    and l: "length pts = m"
    by blast
  from assms(4) have "\<not> length bs - off < 4"
    by simp
  with p w n assms(2)
  have "WKBLinearRing_Init lr (Slice (drop off bs) sp) order
                 = Inr (lr\<lparr>numPoints := of_nat m, points := pts\<rparr>, 4 + 16 * m)"
    by (simp add: WKBLinearRing_Init_def unat_of_count)
  with l show ?thesis
    by blast
qed

lemma polygon_rings_returns:
  assumes "order = 0 \<or> order = 1"
  shows "rings_layout order bs off ms \<Longrightarrow>
   \<exists>rs. polygon_rings (length ms) (Slice bs sp) order off = Inr (rs, length bs)
        \<and> map (\<lambda>r. length (points r)) rs = ms
        \<and> map (\<lambda>r. unat (numPoints r)) rs = ms"
proof (induction ms arbitrary: off)
  case Nil
  then show ?case by simp
next
  case (Cons m ms)
  from Cons.prems have
    m: "m < 4294967296" and b: "off + 4 + 16 * m \<le> length bs"
    and n: "take 4 (drop off bs) = uint32_bytes order m"
    and rest: "rings_layout order bs (off + 4 + 16 * m) ms"
    by simp_all
  from b have s: "slice_from (Slice bs sp) off = Inr (Slice (drop off bs) sp)"
    by (simp add: slice_from_within)
  from WKBLinearRing_Init_returns [OF assms m n b, of zero_WKBLinearRing sp] obtain pts where
    r: "WKBLinearRing_Init zero_WKBLinearRing (Slice (drop off bs) sp) order
          = Inr (zero_WKBLinearRing\<lparr>numPoints := of_nat m, points := pts\<rparr>, 4 + 16 * m)"
    and pts: "length pts = m"
    by auto
  from Cons.IH [OF rest] obtain rs where
    "polygon_rings (length ms) (Slice bs sp) order (off + 4 + 16 * m) = Inr (rs, length bs)"
    and "map (\<lambda>r. length (points r)) rs = ms" and "map (\<lambda>r. unat (numPoints r)) rs = ms"
    by blast
  with s r pts m show ?case
    by (simp add: add.assoc unat_of_count)
qed

lemma rings_layout_length:
  "rings_layout order bs off ms \<Longrightarrow> length bs = off + (\<Sum>m\<leftarrow>ms. 4 + 16 * m)"
  by (induction ms arbitrary: off) auto

text \<open>
  Claim C6: on a well-formed single-polygon blob (byte-order flag 0 or 1, type code 3,
  ring count \<open>length ms\<close>, point counts \<open>ms\<close>, and so of length 9 plus the sum of
  4 + 16 m over the rings), \<open>WKBPolygon.Init\<close> returns, and so does \<open>readNextGeometry\<close>,
  and the number of bytes consumed that they report is the length of the blob, whatever
  the capacity of the buffer. The rings decoded have the point counts \<open>ms\<close>.
\<close>

theorem polygon_consumes_whole_blob:
  assumes "polygon_blob bs ms"
  shows "\<exists>rs. WKBPolygon_Init p (Slice bs sp)
                = Inr (p\<lparr>byteOrder := hd bs, wkbType := 3, rings := rs\<rparr>, length bs)
             \<and> readNextGeometry (Slice bs sp)
                = ([], Inr (Some (Polygon (zero_WKBPolygon\<lparr>byteOrder := hd bs, wkbType := 3,
                                                          rings := rs\<rparr>)), length bs))
             \<and> map (\<lambda>r. length (points r)) rs = ms
             \<and> map (\<lambda>r. unat (numPoints r)) rs = ms
             \<and> length bs = 9 + (\<Sum>m\<leftarrow>ms. 4 + 16 * m)"
proof -
  from assms obtain order rest where
    bs: "bs = order # rest" and o: "order = 0 \<or> order = 1"
    and t: "take 4 (drop 1 bs) = uint32_bytes order 3"
    and nm: "length ms < 4294967296"
    and n: "take 4 (drop 5 bs) = uint32_bytes order (length ms)"
    and lay: "rings_layout order bs 9 ms"
    by (auto simp: polygon_blob_def split: list.splits)
  from rings_layout_length [OF lay] have l: "length bs = 9 + (\<Sum>m\<leftarrow>ms. 4 + 16 * m)" .
  then have l9: "9 \<le> length bs"
    by simp
  from bs have a: "at (Slice bs sp) 0 = Inr order"
    by (simp add: at_def)
  from l9 have w1: "slice_range (Slice bs sp) 1 5 = Inr (Slice (take 4 (drop 1 bs)) (drop 5 bs @ sp))"
    and w2: "slice_range (Slice bs sp) 5 9 = Inr (Slice (take 4 (drop 5 bs)) (drop 9 bs @ sp))"
    by (simp_all add: slice_range_within)
  from o t have t': "bytesToUint32 (Slice (take 4 (drop 1 bs)) (drop 5 bs @ sp)) order = Inr 3"
    using bytesToUint32_uint32_bytes [of order 3] by simp
  from o n
  have n': "bytesToUint32 (Slice (take 4 (drop 5 bs)) (drop 9 bs @ sp)) order
              = Inr (of_nat (length ms))"
    by (simp add: bytesToUint32_uint32_bytes)
  from polygon_rings_returns [OF o lay, of sp] obtain rs where
    rs: "polygon_rings (length ms) (Slice bs sp) order 9 = Inr (rs, length bs)"
    and pts: "map (\<lambda>r. length (points r)) rs = ms"
    and cnt: "map (\<lambda>r. unat (numPoints r)) rs = ms"
    by blast
  have flag: "WKBTypeFlags_at ''WKBPolygon'' = 3"
    by (simp add: WKBTypeFlags_at_def WKBTypeFlags_def)
  have init: "WKBPolygon_Init q (Slice bs sp)
                = Inr (q\<lparr>byteOrder := hd bs, wkbType := 3, rings := rs\<rparr>, length bs)" for q
    using a w1 w2 t' n' nm rs bs flag by (simp add: WKBPolygon_Init_def unat_of_count)
  moreover have "readNextGeometry (Slice bs sp)
                = ([], Inr (Some (Polygon (zero_WKBPolygon\<lparr>byteOrder := hd bs, wkbType := 3,
                                                          rings := rs\<rparr>)), length bs))"
    using a w1 t' bs init [of zero_WKBPolygon]
    by (simp add: readNextGeometry_def newWKBGeometry_def)
  ultimately show ?thesis
    using pts cnt l by blast
qed

text \<open>
  Two blobs, one in each byte order: a little-endian polygon of two rings, with no point
  and with one point, in a buffer with one spare byte; and a big-endian polygon of one
  ring with two points.
\<close>

theorem polygon_consumes_whole_blob_witness:
  "polygon_blob [1, 3, 0, 0, 0, 2, 0, 0, 0,
            0, 0, 0, 0,
            1, 0, 0, 0, 0, 0, 0, 0, 0, 0, 0xF0, 0x3F, 0, 0, 0, 0, 0, 0, 0, 0] [0, 1]
   \<and> readNextGeometry (Slice [1, 3, 0, 0, 0, 2, 0, 0, 0,
            0, 0, 0, 0,
            1, 0, 0, 0, 0, 0, 0, 0, 0, 0, 0xF0, 0x3F, 0, 0, 0, 0, 0, 0, 0, 0] [])
       = ([], Inr (Some (Polygon \<lparr>byteOrder = 1, wkbType = 3, numRings = 0,
              rings = [\<lparr>numPoints = 0, points = []\<rparr>,
                       \<lparr>numPoints = 1, points = [\<lparr>px = 0x3FF0000000000000, py = 0\<rparr>]\<rparr>]\<rparr>), 33))
   \<and> (\<exists>rs. WKBPolygon_Init zero_WKBPolygon (Slice [1, 3, 0, 0, 0, 2, 0, 0, 0,
            0, 0, 0, 0,
            1, 0, 0, 0, 0, 0, 0, 0, 0, 0, 0xF0, 0x3F, 0, 0, 0, 0, 0, 0, 0, 0] [0xFF])
                = Inr (zero_WKBPolygon\<lparr>byteOrder := 1, wkbType := 3, rings := rs\<rparr>, 33)
             \<and> map (\<lambda>r. length (points r)) rs = [0, 1])
   \<and> polygon_blob [0, 0, 0, 0, 3, 0, 0, 0, 1,
            0, 0, 0, 2,
            0x3F, 0xF0, 0, 0, 0, 0, 0, 0, 0x40, 0, 0, 0, 0, 0, 0, 0,
            0xC0, 0, 0, 0, 0, 0, 0, 0, 0, 0, 0, 0, 0, 0, 0, 0] [2]
   \<and> readNextGeometry (Slice [0, 0, 0, 0, 3, 0, 0, 0, 1,
            0, 0, 0, 2,
            0x3F, 0xF0, 0, 0, 0, 0, 0, 0, 0x40, 0, 0, 0, 0, 0, 0, 0,
            0xC0, 0, 0, 0, 0, 0, 0, 0, 0, 0, 0, 0, 0, 0, 0, 0] [])
       = ([], Inr (Some (Polygon \<lparr>byteOrder = 0, wkbType = 3, numRings = 0,
              rings = [\<lparr>numPoints = 2,
                        points = [\<lparr>px = 0x3FF0000000000000, py = 0x4000000000000000\<rparr>,
                                  \<lparr>px = 0xC000000000000000, py = 0\<rparr>]\<rparr>]\<rparr>), 45))
   \<and> (\<exists>rs. WKBPolygon_Init zero_WKBPolygon (Slice [0, 0, 0, 0, 3, 0, 0, 0, 1,
            0, 0, 0, 2,
            0x3F, 0xF0, 0, 0, 0, 0, 0, 0, 0x40, 0, 0, 0, 0, 0, 0, 0,
            0xC0, 0, 0, 0, 0, 0, 0, 0, 0, 0, 0, 0, 0, 0, 0, 0] [])
                = Inr (zero_WKBPolygon\<lparr>byteOrder := 0, wkbType := 3, rings := rs\<rparr>, 45)
             \<and> map (\<lambda>r. length (points r)) rs = [2])"
proof -
  have b: "polygon_blob [1, 3, 0, 0, 0, 2, 0, 0, 0,
            0, 0, 0, 0,
            1, 0, 0, 0, 0, 0, 0, 0, 0, 0, 0xF0, 0x3F, 0, 0, 0, 0, 0, 0, 0, 0] [0, 1]"
    by (simp add: polygon_blob_def uint32_bytes_def)
  have r: "readNextGeometry (Slice [1, 3, 0, 0, 0, 2, 0, 0, 0,
            0, 0, 0, 0,
            1, 0, 0, 0, 0, 0, 0, 0, 0, 0, 0xF0, 0x3F, 0, 0, 0, 0, 0, 0, 0, 0] [])
       = ([], Inr (Some (Polygon \<lparr>byteOrder = 1, wkbType = 3, numRings = 0,
              rings = [\<lparr>numPoints = 0, points = []\<rparr>,
                       \<lparr>numPoints = 1, points = [\<lparr>px = 0x3FF0000000000000, py = 0\<rparr>]\<rparr>]\<rparr>), 33))"
    by code_simp
  have n: "length [1, 3, 0, 0, 0, 2, 0, 0, 0,
            0, 0, 0, 0,
            1, 0, 0, 0, 0, 0, 0, 0, 0, 0, 0xF0, 0x3F, 0, 0, 0, 0, 0, 0, 0, 0] = 33"
    by simp
  from polygon_consumes_whole_blob [OF b, of zero_WKBPolygon "[0xFF]", unfolded n list.sel]
  obtain rs where
    i: "WKBPolygon_Init zero_WKBPolygon (Slice [1, 3, 0, 0, 0, 2, 0, 0, 0,
            0, 0, 0, 0,
            1, 0, 0, 0, 0, 0, 0, 0, 0, 0, 0xF0, 0x3F, 0, 0, 0, 0, 0, 0, 0, 0] [0xFF])
          = Inr (zero_WKBPolygon\<lparr>byteOrder := 1, wkbType := 3, rings := rs\<rparr>, 33)"
    and m: "map (\<lambda>r. length (points r)) rs = [0, 1]"
    by (elim exE conjE)
  have b': "polygon_blob [0, 0, 0, 0, 3, 0, 0, 0, 1,
            0, 0, 0, 2,
            0x3F, 0xF0, 0, 0, 0, 0, 0, 0, 0x40, 0, 0, 0, 0, 0, 0, 0,
            0xC0, 0, 0, 0, 0, 0, 0, 0, 0, 0, 0, 0, 0, 0, 0, 0] [2]"
    by (simp add: polygon_blob_def uint32_bytes_def)
  have r': "readNextGeometry (Slice [0, 0, 0, 0, 3, 0, 0, 0, 1,
            0, 0, 0, 2,
            0x3F, 0xF0, 0, 0, 0, 0, 0, 0, 0x40, 0, 0, 0, 0, 0, 0, 0,
            0xC0, 0, 0, 0, 0, 0, 0, 0, 0, 0, 0, 0, 0, 0, 0, 0] [])
       = ([], Inr (Some (Polygon \<lparr>byteOrder = 0, wkbType = 3, numRings = 0,
              rings = [\<lparr>numPoints = 2,
                        points = [\<lparr>px = 0x3FF0000000000000, py = 0x4000000000000000\<rparr>,
                                  \<lparr>px = 0xC000000000000000, py = 0\<rparr>]\<rparr>]\<rparr>), 45))"
    by code_simp
  have n': "length [0, 0, 0, 0, 3, 0, 0, 0, 1,
            0, 0, 0, 2,
            0x3F, 0xF0, 0, 0, 0, 0, 0, 0, 0x40, 0, 0, 0, 0, 0, 0, 0,
            0xC0, 0, 0, 0, 0, 0, 0, 0, 0, 0, 0, 0, 0, 0, 0, 0] = 45"
    by simp
  from polygon_consumes_whole_blob [OF b', of zero_WKBPolygon "[]", unfolded n' list.sel]
  obtain rs' where
    i': "WKBPolygon_Init zero_WKBPolygon (Slice [0, 0, 0, 0, 3, 0, 0, 0, 1,
            0, 0, 0, 2,
            0x3F, 0xF0, 0, 0, 0, 0, 0, 0, 0x40, 0, 0, 0, 0, 0, 0, 0,
            0xC0, 0, 0, 0, 0, 0, 0, 0, 0, 0, 0, 0, 0, 0, 0, 0] [])
          = Inr (zero_WKBPolygon\<lparr>byteOrder := 0, wkbType := 3, rings := rs'\<rparr>, 45)"
    and m': "map (\<lambda>r. length (points r)) rs' = [2]"
    by (elim exE conjE)
  show ?thesis
    using b r i m b' r' i' m' by - (intro conjI exI, assumption+)
qed

section \<open>Dispatch on a type code that is not implemented\<close>

text \<open>
  Claim C8, as the code has it: on a buffer that is not empty and whose type code, decoded
  from bytes 1 to 4 in the byte order of byte 0, is not 3, \<open>newWKBGeometry\<close> logs the
  code and returns nil, and \<open>readNextGeometry\<close> then ends the process with \<open>log.Fatal\<close>
  on the same code. No \<open>Init\<close> is called, so the body is never decoded; and nothing is
  returned to the caller, neither a geometry nor a number of bytes consumed (not even 0).
  \<open>readGeometries\<close> ends in the same way.
\<close>

theorem unimplemented_type_is_fatal:
  assumes "at bytes 0 = Inr order"
    and "and_then (slice_range bytes 1 5) (\<lambda>w. bytesToUint32 w order) = Inr geomType"
    and "geomType \<noteq> 3"
  shows "newWKBGeometry geomType = ([Error_Unimplemented geomType], None)
       \<and> readNextGeometry bytes
           = ([Error_Unimplemented geomType], Inl (Fatal (NilGeometry geomType)))
       \<and> (\<forall>g n. snd (readNextGeometry bytes) \<noteq> Inr (g, n))
       \<and> readGeometries bytes
           = ([Info_Reading (len bytes), Error_Unimplemented geomType],
              Inl (Fatal (NilGeometry geomType)))"
proof -
  from assms(1) have l: "0 < len bytes"
    by (simp add: at_eq_Inr)
  from assms(3) have n: "newWKBGeometry geomType = ([Error_Unimplemented geomType], None)"
    by (simp add: newWKBGeometry_def)
  from l assms(1,2) n
  have r: "readNextGeometry bytes
             = ([Error_Unimplemented geomType], Inl (Fatal (NilGeometry geomType)))"
    by (simp add: readNextGeometry_def)
  have "slice_from bytes 0 = Inr bytes"
    by (cases bytes) (simp add: slice_from_def)
  with l r have "readGeometries_loop bytes 0 []
                   = ([Error_Unimplemented geomType], Inl (Fatal (NilGeometry geomType)))"
    by (simp add: readGeometries_loop.simps [of bytes 0])
  with n r show ?thesis
    by (simp add: readGeometries_def)
qed

theorem unimplemented_type_witness:
  "at (Slice [1, 99, 0, 0, 0, 0, 0, 0, 0] []) 0 = Inr 1
   \<and> and_then (slice_range (Slice [1, 99, 0, 0, 0, 0, 0, 0, 0] []) 1 5) (\<lambda>w. bytesToUint32 w 1) = Inr 99
   \<and> (99 :: uint32) \<noteq> 3
   \<and> readNextGeometry (Slice [1, 99, 0, 0, 0, 0, 0, 0, 0] [])
       = ([Error_Unimplemented 99], Inl (Fatal (NilGeometry 99)))
   \<and> (\<forall>g n. snd (readNextGeometry (Slice [1, 99, 0, 0, 0, 0, 0, 0, 0] [])) \<noteq> Inr (g, n))
   \<and> readGeometries (Slice [1, 99, 0, 0, 0, 0, 0, 0, 0] [])
       = ([Info_Reading 9, Error_Unimplemented 99], Inl (Fatal (NilGeometry 99)))"
proof -
  have a: "at (Slice [1, 99, 0, 0, 0, 0, 0, 0, 0] []) 0 = Inr 1"
    by (simp add: at_def)
  have b: "and_then (slice_range (Slice [1, 99, 0, 0, 0, 0, 0, 0, 0] []) 1 5)
             (\<lambda>w. bytesToUint32 w 1) = Inr 99"
    by code_simp
  have c: "(99 :: uint32) \<noteq> 3"
    by simp
  from unimplemented_type_is_fatal [OF a b c] a b c show ?thesis
    by simp
qed

text \<open>
  Claim C8 as the specification states it fails: the dispatch does not come back with a
  failure and zero bytes consumed. On a big-endian buffer with the type code 2
  (LineString) \<open>readNextGeometry\<close> returns nothing, in particular not a nil geometry with
  the count 0: the process ends in \<open>log.Fatal\<close>.
\<close>

theorem unimplemented_type_returns_no_count:
  "readNextGeometry (Slice [0, 0, 0, 0, 2, 0, 0, 0, 0] [])
     = ([Error_Unimplemented 2], Inl (Fatal (NilGeometry 2)))
   \<and> snd (readNextGeometry (Slice [0, 0, 0, 0, 2, 0, 0, 0, 0] [])) \<noteq> Inr (None, 0)
   \<and> readGeometries (Slice [0, 0, 0, 0, 2, 0, 0, 0, 0] [])
     = ([Info_Reading 9, Error_Unimplemented 2], Inl (Fatal (NilGeometry 2)))"
proof -
  have r: "readNextGeometry (Slice [0, 0, 0, 0, 2, 0, 0, 0, 0] [])
             = ([Error_Unimplemented 2], Inl (Fatal (NilGeometry 2)))"
    by code_simp
  have g: "readGeometries (Slice [0, 0, 0, 0, 2, 0, 0, 0, 0] [])
             = ([Info_Reading 9, Error_Unimplemented 2], Inl (Fatal (NilGeometry 2)))"
    by code_simp
  from r g show ?thesis
    by simp
qed

end
